theory Spec2Isabelle
  imports Main
begin

section \<open>JavaScript values\<close>

text \<open>
  A request or response body that the framework has parsed from JSON is a value of type
  \<open>json\<close>. A JavaScript expression evaluates to a \<open>jsval\<close>: \<open>None\<close> is
  \<^verbatim>\<open>undefined\<close>, \<open>Some v\<close> a JSON value. Numbers are modelled by their integer
  value (amounts in kobo and in Naira are whole numbers below \<open>2 ^ 53\<close>, where the
  arithmetic of doubles is exact); an object is the association list of its own
  properties, in insertion order, with distinct keys.
\<close>

datatype json =
    JNull
  | JBool bool
  | JNum int
  | JStr string
  | JArr "json list"
  | JObj "(string \<times> json) list"

type_synonym jsval = "json option"

datatype js_error = TypeError

text \<open>
  Property access \<^verbatim>\<open>x.p\<close>: a TypeError on \<^verbatim>\<open>undefined\<close> and
  \<^verbatim>\<open>null\<close>, the property's value on an object, and \<^verbatim>\<open>undefined\<close> for
  a missing property and for every other value (the program reads only the names
  event, data, reference, status, customer, email, amount, metadata, full_name and
  cohort, none of which a string, number, boolean or array has).
\<close>

fun get_prop :: "jsval \<Rightarrow> string \<Rightarrow> js_error + jsval" where
  "get_prop None p = Inl TypeError"
| "get_prop (Some JNull) p = Inl TypeError"
| "get_prop (Some (JObj kvs)) p = Inr (map_of kvs p)"
| "get_prop (Some v) p = Inr None"

text \<open>
  Strict equality \<^verbatim>\<open>===\<close> between two values that come from two different parsed
  documents (or from a literal): primitives are compared by type and value, and two
  arrays or objects are never the same object.
\<close>

fun strict_eq :: "jsval \<Rightarrow> jsval \<Rightarrow> bool" where
  "strict_eq None None = True"
| "strict_eq (Some JNull) (Some JNull) = True"
| "strict_eq (Some (JBool a)) (Some (JBool b)) = (a = b)"
| "strict_eq (Some (JNum a)) (Some (JNum b)) = (a = b)"
| "strict_eq (Some (JStr a)) (Some (JStr b)) = (a = b)"
| "strict_eq x y = False"

text \<open>The values that \<^verbatim>\<open>===\<close> compares by value: everything but arrays and objects.\<close>

fun primitive :: "jsval \<Rightarrow> bool" where
  "primitive (Some (JArr xs)) = False"
| "primitive (Some (JObj kvs)) = False"
| "primitive v = True"

text \<open>Sequencing of computations that may throw.\<close>

fun and_then :: "'e + 'a \<Rightarrow> ('a \<Rightarrow> 'e + 'b) \<Rightarrow> 'e + 'b" where
  "and_then (Inl e) f = Inl e"
| "and_then (Inr x) f = f x"

subsection \<open>\<^verbatim>\<open>JSON.stringify\<close>\<close>

fun digits :: "nat \<Rightarrow> string" where
  "digits n =
     (if n < 10 then [char_of (48 + n)]
      else digits (n div 10) @ [char_of (48 + n mod 10)])"

declare digits.simps [simp del]

definition number_text :: "int \<Rightarrow> string" where
  "number_text i = (if i < 0 then CHR ''-'' # digits (nat (- i)) else digits (nat i))"

definition hex_digit :: "nat \<Rightarrow> char" where
  "hex_digit n = (if n < 10 then char_of (48 + n) else char_of (87 + n))"

definition quote_char :: "char \<Rightarrow> string" where
  "quote_char c =
     (let n = (of_char c :: nat) in
      if n = 0x22 then [CHR 0x5C, CHR 0x22]
      else if n = 0x5C then [CHR 0x5C, CHR 0x5C]
      else if n = 0x08 then [CHR 0x5C, CHR ''b'']
      else if n = 0x0C then [CHR 0x5C, CHR ''f'']
      else if n = 0x0A then [CHR 0x5C, CHR ''n'']
      else if n = 0x0D then [CHR 0x5C, CHR ''r'']
      else if n = 0x09 then [CHR 0x5C, CHR ''t'']
      else if n < 0x20 then
        [CHR 0x5C, CHR ''u'', CHR ''0'', CHR ''0'', hex_digit (n div 16), hex_digit (n mod 16)]
      else [c])"

definition quote_string :: "string \<Rightarrow> string" where
  "quote_string s = [CHR 0x22] @ concat (map quote_char s) @ [CHR 0x22]"

fun JSON_stringify :: "json \<Rightarrow> string"
  and stringify_elements :: "json list \<Rightarrow> string"
  and stringify_members :: "(string \<times> json) list \<Rightarrow> string" where
  "JSON_stringify JNull = ''null''"
| "JSON_stringify (JBool b) = (if b then ''true'' else ''false'')"
| "JSON_stringify (JNum n) = number_text n"
| "JSON_stringify (JStr s) = quote_string s"
| "JSON_stringify (JArr xs) = ''['' @ stringify_elements xs @ '']''"
| "JSON_stringify (JObj kvs) = ''{'' @ stringify_members kvs @ ''}''"
| "stringify_elements [] = []"
| "stringify_elements [x] = JSON_stringify x"
| "stringify_elements (x # y # ys) = JSON_stringify x @ '','' @ stringify_elements (y # ys)"
| "stringify_members [] = []"
| "stringify_members [(k, v)] = quote_string k @ '':'' @ JSON_stringify v"
| "stringify_members ((k, v) # m # ms) =
     quote_string k @ '':'' @ JSON_stringify v @ '','' @ stringify_members (m # ms)"

section \<open>The registration store\<close>

text \<open>
  The table \<^verbatim>\<open>registrations\<close> is the list of its rows. The program never declares
  the table. Modelled from the spec: the columns of a registration (section 3), with
  \<open>payment_ref\<close> null and both timestamps set to the current time when a row is
  inserted. A timestamp is a number; \<^verbatim>\<open>NOW()\<close> is the clock of the environment.
\<close>

record registration =
  email :: string
  full_name :: string
  amount_paid :: int
  cohort :: string
  status :: string
  payment_ref :: "string option"
  created_at :: nat
  updated_at :: nat

type_synonym table = "registration list"

text \<open>\<^verbatim>\<open>SELECT email, status FROM registrations WHERE email = $1\<close>\<close>

definition select_by_email :: "string \<Rightarrow> table \<Rightarrow> registration list" where
  "select_by_email e tbl = filter (\<lambda>r. email r = e) tbl"

text \<open>
  \<^verbatim>\<open>UPDATE registrations SET full_name = $1, amount_paid = $2, status = $3,
  updated_at = NOW() WHERE email = $4\<close> with the status \<^verbatim>\<open>'pending'\<close>.
\<close>

definition update_pending :: "nat \<Rightarrow> string \<Rightarrow> int \<Rightarrow> string \<Rightarrow> table \<Rightarrow> table" where
  "update_pending now fullName amount e tbl =
     map (\<lambda>r. if email r = e
              then r\<lparr>full_name := fullName, amount_paid := amount,
                     status := ''pending'', updated_at := now\<rparr>
              else r) tbl"

text \<open>
  \<^verbatim>\<open>INSERT INTO registrations (email, full_name, amount_paid, cohort, status)
  VALUES ($1, $2, $3, $4, $5)\<close> with the cohort \<^verbatim>\<open>'Cohort 3'\<close> and the status
  \<^verbatim>\<open>'pending'\<close>.
\<close>

definition insert_pending :: "nat \<Rightarrow> string \<Rightarrow> string \<Rightarrow> int \<Rightarrow> table \<Rightarrow> table" where
  "insert_pending now e fullName amount tbl =
     tbl @ [\<lparr>email = e, full_name = fullName, amount_paid = amount, cohort = ''Cohort 3'',
             status = ''pending'', payment_ref = None, created_at = now, updated_at = now\<rparr>]"

text \<open>
  \<^verbatim>\<open>UPDATE registrations SET payment_ref = $1, status = $2, updated_at = NOW()
  WHERE email = $3\<close> with the status \<^verbatim>\<open>'paid'\<close>: the spec's \<open>markPaid\<close>. The
  parameters are SQL values (\<open>None\<close> is NULL, and \<^verbatim>\<open>email = NULL\<close> holds of no
  row). The result is the new table and the number of rows the statement changed.
\<close>

definition markPaid :: "nat \<Rightarrow> string option \<Rightarrow> string option \<Rightarrow> table \<Rightarrow> table \<times> nat" where
  "markPaid now e ref tbl =
     (case e of
        None \<Rightarrow> (tbl, 0)
      | Some a \<Rightarrow>
          (map (\<lambda>r. if email r = a
                   then r\<lparr>payment_ref := ref, status := ''paid'', updated_at := now\<rparr>
                   else r) tbl,
           length (select_by_email a tbl)))"

section \<open>The environment and the effects of a handler\<close>

datatype db_op =
    Connect | Begin | SelectRegistration | UpdatePending | InsertPending
  | UpdatePaid | Commit | Rollback | Release

datatype axios_response = Rejects | Resolves json

record initialize_payload =
  payload_email :: string
  payload_amount :: int
  metadata_full_name :: string
  metadata_email :: string
  metadata_cohort :: string
  metadata_amount_naira :: int

text \<open>
  What a handler cannot compute by itself is a field of the environment: the
  configured key (\<open>None\<close> when the variable is not set), HMAC-SHA512 with hex output
  (key, then message), the provider's answers to the two HTTPS calls (the key sent is
  \<open>None\<close> when the variable is not set), which database operations fail, how the
  database driver renders a JavaScript value as an SQL parameter, and the clock.
\<close>

record env =
  PAYSTACK_SECRET_KEY :: "string option"
  hmac_sha512_hex :: "string \<Rightarrow> string \<Rightarrow> string"
  axios_get_verify :: "jsval \<Rightarrow> string option \<Rightarrow> axios_response"
  axios_post_initialize :: "initialize_payload \<Rightarrow> string option \<Rightarrow> axios_response"
  db_fault :: "db_op \<Rightarrow> bool"
  pg_value :: "jsval \<Rightarrow> string option"
  NOW :: nat

datatype log_msg =
    KeyNotDefined | SignatureHeaderMissing | InvalidSignature | ProcessingCharge
  | VerificationOk | VerificationFailed | VerificationAmounts | ErrorVerifying
  | DatabaseAction | BusinessLogic | DbUpdateError | NotVerified | UnhandledEventType
  | ErrorProcessing | UpdatedExisting | CreatedNew | DatabaseError | ErrorInitializing
  | UnhandledError | ErrorVerifyingOrUpdating | WebhookReceived

text \<open>
  A handler returns the table it leaves and the list of its effects in the order in
  which it performs them: a response with its status code, a line on the console, a
  database operation it attempts, a call to the provider, and \<open>Rejected\<close> when an
  exception leaves the handler.
\<close>

datatype effect =
    Respond nat
  | Log log_msg
  | Db db_op
  | VerifyCall jsval
  | InitializeCall initialize_payload
  | Rejected

text \<open>\<^verbatim>\<open>!PAYSTACK_SECRET_KEY\<close> holds of an unset variable and of the empty string.\<close>

definition secret_key :: "env \<Rightarrow> string option" where
  "secret_key env =
     (case PAYSTACK_SECRET_KEY env of
        None \<Rightarrow> None
      | Some k \<Rightarrow> if k = [] then None else Some k)"

section \<open>\<^verbatim>\<open>utils/paystack.js\<close>\<close>

definition verifyPaystackTransaction ::
  "env \<Rightarrow> jsval \<Rightarrow> jsval \<Rightarrow> string \<Rightarrow> bool \<times> effect list" where
  "verifyPaystackTransaction env transactionRef paidAmountKobo secretKey =
     (case axios_get_verify env transactionRef (Some secretKey) of
        Rejects \<Rightarrow> (False, [VerifyCall transactionRef, Log ErrorVerifying])
      | Resolves d \<Rightarrow>
          (case and_then (get_prop (Some d) ''data'') (\<lambda>verifiedData.
                and_then (get_prop verifiedData ''status'') (\<lambda>verifiedStatus.
                and_then (get_prop verifiedData ''amount'') (\<lambda>verifiedAmountKobo.
                and_then (get_prop verifiedData ''reference'') (\<lambda>verifiedRef.
                Inr (verifiedStatus, verifiedAmountKobo, verifiedRef))))) of
             Inl err \<Rightarrow> (False, [VerifyCall transactionRef, Log ErrorVerifying])
           | Inr (verifiedStatus, verifiedAmountKobo, verifiedRef) \<Rightarrow>
               if strict_eq verifiedStatus (Some (JStr ''success''))
                  \<and> strict_eq verifiedAmountKobo paidAmountKobo
                  \<and> strict_eq verifiedRef transactionRef
               then (True, [VerifyCall transactionRef, Log VerificationOk])
               else (False, [VerifyCall transactionRef, Log VerificationFailed,
                             Log VerificationAmounts])))"

text \<open>
  A webhook request: the method, the header \<^verbatim>\<open>x-paystack-signature\<close> when the
  request has one, the body as the platform parsed it, and the bytes of the body as
  they arrived, which the program never reads.
\<close>

record webhook_request =
  wh_method :: string
  wh_signature :: "string option"
  wh_body :: json
  wh_rawBody :: string

definition verifyPaystackWebhookSignature ::
  "env \<Rightarrow> webhook_request \<Rightarrow> string \<Rightarrow> bool \<times> effect list" where
  "verifyPaystackWebhookSignature env req secretKey =
     (case wh_signature req of
        None \<Rightarrow> (False, [Log SignatureHeaderMissing])
      | Some signature \<Rightarrow>
          if signature = [] then (False, [Log SignatureHeaderMissing])
          else (hmac_sha512_hex env secretKey (JSON_stringify (wh_body req)) = signature, []))"

section \<open>\<^verbatim>\<open>api/paystack-webhook.js\<close>\<close>

text \<open>
  The fields that the handler reads from a \<^verbatim>\<open>charge.success\<close> event, in the
  order in which it reads them: the reference, the customer's email, the amount and
  the metadata. Reading a property of a missing \<^verbatim>\<open>data\<close> or \<^verbatim>\<open>customer\<close>
  throws.
\<close>

definition charge_fields :: "json \<Rightarrow> js_error + (jsval \<times> jsval \<times> jsval \<times> jsval)" where
  "charge_fields event =
     and_then (get_prop (Some event) ''data'') (\<lambda>data.
     and_then (get_prop data ''reference'') (\<lambda>transactionRef.
     and_then (get_prop data ''customer'') (\<lambda>customer.
     and_then (get_prop customer ''email'') (\<lambda>customerEmail.
     and_then (get_prop data ''amount'') (\<lambda>paidAmountKobo.
     and_then (get_prop data ''metadata'') (\<lambda>metadata.
     Inr (transactionRef, customerEmail, paidAmountKobo, metadata)))))))"

text \<open>
  Step 2 and step 3 of the handler, inside their own \<^verbatim>\<open>try\<close>: the update of the
  row, then the line of business logic, which reads two properties of the metadata and
  throws after the update when the event has none.
\<close>

definition persist_paid :: "env \<Rightarrow> jsval \<Rightarrow> jsval \<Rightarrow> jsval \<Rightarrow> table \<Rightarrow> table \<times> effect list" where
  "persist_paid env transactionRef customerEmail metadata tbl =
     (if db_fault env Connect then (tbl, [Db Connect, Log DbUpdateError])
      else if db_fault env UpdatePaid
      then (tbl, [Db Connect, Db UpdatePaid, Log DbUpdateError, Db Release])
      else (fst (markPaid (NOW env) (pg_value env customerEmail) (pg_value env transactionRef) tbl),
            [Db Connect, Db UpdatePaid, Log DatabaseAction]
            @ (case and_then (get_prop metadata ''full_name'') (\<lambda>full_name.
                    get_prop metadata ''cohort'') of
                 Inl err \<Rightarrow> [Log DbUpdateError]
               | Inr c \<Rightarrow> [Log BusinessLogic])
            @ [Db Release]))"

text \<open>What the handler does with the event after it has answered 200.\<close>

definition handle_event :: "env \<Rightarrow> string \<Rightarrow> json \<Rightarrow> table \<Rightarrow> table \<times> effect list" where
  "handle_event env key event tbl =
     (case get_prop (Some event) ''event'' of
        Inl err \<Rightarrow> (tbl, [Log ErrorProcessing])
      | Inr ev \<Rightarrow>
          if strict_eq ev (Some (JStr ''charge.success''))
          then (case charge_fields event of
                  Inl err \<Rightarrow> (tbl, [Log ErrorProcessing])
                | Inr (transactionRef, customerEmail, paidAmountKobo, metadata) \<Rightarrow>
                    (case verifyPaystackTransaction env transactionRef paidAmountKobo key of
                       (isVerified, t) \<Rightarrow>
                         if isVerified
                         then (case persist_paid env transactionRef customerEmail metadata tbl of
                                 (tbl', t') \<Rightarrow> (tbl', [Log ProcessingCharge] @ t @ t'))
                         else (tbl, [Log ProcessingCharge] @ t @ [Log NotVerified])))
          else (tbl, [Log UnhandledEventType]))"

definition paystack_webhook :: "env \<Rightarrow> webhook_request \<Rightarrow> table \<Rightarrow> table \<times> effect list" where
  "paystack_webhook env req tbl =
     (if wh_method req \<noteq> ''POST'' then (tbl, [Respond 405])
      else case secret_key env of
        None \<Rightarrow> (tbl, [Log KeyNotDefined, Respond 500])
      | Some key \<Rightarrow>
          (case verifyPaystackWebhookSignature env req key of
             (ok, t) \<Rightarrow>
               if \<not> ok then (tbl, t @ [Log InvalidSignature, Respond 400])
               else (case handle_event env key (wh_body req) tbl of
                       (tbl', t') \<Rightarrow> (tbl', t @ [Respond 200] @ t'))))"

section \<open>\<^verbatim>\<open>api/initialize-payment.js\<close>\<close>

text \<open>
  The body of an initialization request at its documented type: an email and a full
  name that are strings, an amount in Naira that is a number, each of them absent
  (\<open>None\<close>) when the body has no such field.
\<close>

record init_request =
  req_method :: string
  body_email :: "string option"
  body_amount :: "int option"
  body_fullName :: "string option"

text \<open>
  \<^verbatim>\<open>!email || !amount || !fullName || amount <= 0\<close>: the fields of a body that
  passes, \<open>None\<close> for a body that does not.
\<close>

definition valid_details :: "init_request \<Rightarrow> (string \<times> int \<times> string) option" where
  "valid_details req =
     (case (body_email req, body_amount req, body_fullName req) of
        (Some e, Some amount, Some fullName) \<Rightarrow>
          if e = [] \<or> amount = 0 \<or> fullName = [] \<or> amount \<le> 0 then None
          else Some (e, amount, fullName)
      | other \<Rightarrow> None)"

datatype outcome = Continue | Returned

text \<open>
  The \<^verbatim>\<open>catch\<close> block of the database part: roll back, log, answer 500, and
  release the client in the \<^verbatim>\<open>finally\<close> block. When the rollback itself fails,
  the exception leaves the handler. The argument is the list of effects so far.
\<close>

definition on_db_error :: "env \<Rightarrow> effect list \<Rightarrow> effect list" where
  "on_db_error env t =
     (if db_fault env Rollback then t @ [Db Rollback, Db Release, Rejected]
      else t @ [Db Rollback, Log DatabaseError, Respond 500, Db Release])"

text \<open>
  The database part of the handler: one transaction that reads the rows of the email
  and then updates them or inserts a row. The writes of a transaction reach the table
  when it commits.
\<close>

definition register_pending ::
  "env \<Rightarrow> string \<Rightarrow> int \<Rightarrow> string \<Rightarrow> table \<Rightarrow> table \<times> effect list \<times> outcome" where
  "register_pending env e amount fullName tbl =
     (if db_fault env Connect
      then (tbl, [Db Connect, Log DatabaseError, Respond 500], Returned)
      else if db_fault env Begin
      then (tbl, on_db_error env [Db Connect, Db Begin], Returned)
      else if db_fault env SelectRegistration
      then (tbl, on_db_error env [Db Connect, Db Begin, Db SelectRegistration], Returned)
      else
        (case select_by_email e tbl of
           r # rs \<Rightarrow>
             if status r = ''paid''
             then (if db_fault env Rollback
                   then (tbl, on_db_error env
                                [Db Connect, Db Begin, Db SelectRegistration, Db Rollback],
                         Returned)
                   else (tbl, [Db Connect, Db Begin, Db SelectRegistration, Db Rollback,
                               Respond 409, Db Release], Returned))
             else if db_fault env UpdatePending
             then (tbl, on_db_error env
                          [Db Connect, Db Begin, Db SelectRegistration, Db UpdatePending],
                   Returned)
             else if db_fault env Commit
             then (tbl, on_db_error env
                          [Db Connect, Db Begin, Db SelectRegistration, Db UpdatePending,
                           Log UpdatedExisting, Db Commit],
                   Returned)
             else (update_pending (NOW env) fullName amount e tbl,
                   [Db Connect, Db Begin, Db SelectRegistration, Db UpdatePending,
                    Log UpdatedExisting, Db Commit, Db Release],
                   Continue)
         | [] \<Rightarrow>
             if db_fault env InsertPending
             then (tbl, on_db_error env
                          [Db Connect, Db Begin, Db SelectRegistration, Db InsertPending],
                   Returned)
             else if db_fault env Commit
             then (tbl, on_db_error env
                          [Db Connect, Db Begin, Db SelectRegistration, Db InsertPending,
                           Log CreatedNew, Db Commit],
                   Returned)
             else (insert_pending (NOW env) e fullName amount tbl,
                   [Db Connect, Db Begin, Db SelectRegistration, Db InsertPending,
                    Log CreatedNew, Db Commit, Db Release],
                   Continue)))"

text \<open>The call to the provider, with the amount in kobo, and the answer to the client.\<close>

definition initialize_with_paystack ::
  "env \<Rightarrow> string option \<Rightarrow> string \<Rightarrow> int \<Rightarrow> string \<Rightarrow> effect list" where
  "initialize_with_paystack env key e amount fullName =
     (let payload = \<lparr>payload_email = e, payload_amount = amount * 100,
                      metadata_full_name = fullName, metadata_email = e,
                      metadata_cohort = ''Cohort 3'', metadata_amount_naira = amount\<rparr>
      in case axios_post_initialize env payload key of
           Resolves d \<Rightarrow> [InitializeCall payload, Respond 200]
         | Rejects \<Rightarrow> [InitializeCall payload, Log ErrorInitializing, Respond 500])"

text \<open>
  The handler. The \<^verbatim>\<open>cors\<close> middleware answers a preflight request (OPTIONS)
  itself with 204 and does not continue.
\<close>

definition initialize_payment :: "env \<Rightarrow> init_request \<Rightarrow> table \<Rightarrow> table \<times> effect list" where
  "initialize_payment env req tbl =
     (if req_method req = ''OPTIONS'' then (tbl, [Respond 204])
      else if req_method req \<noteq> ''POST'' then (tbl, [Respond 405])
      else case secret_key env of
        None \<Rightarrow> (tbl, [Log KeyNotDefined, Respond 500])
      | Some key \<Rightarrow>
          (case valid_details req of
             None \<Rightarrow> (tbl, [Respond 400])
           | Some (e, amount, fullName) \<Rightarrow>
               (case register_pending env e amount fullName tbl of
                  (tbl', t, Returned) \<Rightarrow> (tbl', t)
                | (tbl', t, Continue) \<Rightarrow>
                    (tbl', t @ initialize_with_paystack env (Some key) e amount fullName))))"

section \<open>The Express server\<close>

text \<open>
  The second source file registers the same two routes on an Express application,
  with \<^verbatim>\<open>app.post\<close>, so that its handlers see POST requests only. It checks
  neither the method nor the configured key.
\<close>

definition app_initialize_payment :: "env \<Rightarrow> init_request \<Rightarrow> table \<Rightarrow> table \<times> effect list" where
  "app_initialize_payment env req tbl =
     (case valid_details req of
        None \<Rightarrow> (tbl, [Respond 400])
      | Some (e, amount, fullName) \<Rightarrow>
          (case register_pending env e amount fullName tbl of
             (tbl', t, Returned) \<Rightarrow> (tbl', t)
           | (tbl', t, Continue) \<Rightarrow>
               (tbl', t @ initialize_with_paystack env (PAYSTACK_SECRET_KEY env) e amount fullName)))"

text \<open>
  The fields that \<^verbatim>\<open>processWebhookEvent\<close> reads before its \<^verbatim>\<open>try\<close> block:
  the reference, the status that the event reports, the customer's email, the amount
  and the metadata.
\<close>

definition event_fields ::
  "json \<Rightarrow> js_error + (jsval \<times> jsval \<times> jsval \<times> jsval \<times> jsval)" where
  "event_fields event =
     and_then (get_prop (Some event) ''data'') (\<lambda>data.
     and_then (get_prop data ''reference'') (\<lambda>transactionRef.
     and_then (get_prop data ''status'') (\<lambda>transactionStatus.
     and_then (get_prop data ''customer'') (\<lambda>customer.
     and_then (get_prop customer ''email'') (\<lambda>customerEmail.
     and_then (get_prop data ''amount'') (\<lambda>paidAmountKobo.
     and_then (get_prop data ''metadata'') (\<lambda>metadata.
     Inr (transactionRef, transactionStatus, customerEmail, paidAmountKobo, metadata))))))))"

text \<open>
  The \<^verbatim>\<open>try\<close> block of \<^verbatim>\<open>processWebhookEvent\<close>, with its \<^verbatim>\<open>catch\<close>
  and \<^verbatim>\<open>finally\<close>: the call to the provider, the comparison, the update of the
  row and the line of business logic.
\<close>

definition verify_and_persist ::
  "env \<Rightarrow> jsval \<Rightarrow> jsval \<Rightarrow> jsval \<Rightarrow> jsval \<Rightarrow> table \<Rightarrow> table \<times> effect list" where
  "verify_and_persist env transactionRef customerEmail paidAmountKobo metadata tbl =
     (case axios_get_verify env transactionRef (PAYSTACK_SECRET_KEY env) of
        Rejects \<Rightarrow> (tbl, [VerifyCall transactionRef, Log ErrorVerifyingOrUpdating])
      | Resolves d \<Rightarrow>
          (case and_then (get_prop (Some d) ''data'') (\<lambda>verifiedData.
                and_then (get_prop verifiedData ''status'') (\<lambda>verifiedStatus.
                and_then (get_prop verifiedData ''amount'') (\<lambda>verifiedAmountKobo.
                and_then (get_prop verifiedData ''reference'') (\<lambda>verifiedRef.
                Inr (verifiedStatus, verifiedAmountKobo, verifiedRef))))) of
             Inl err \<Rightarrow> (tbl, [VerifyCall transactionRef, Log ErrorVerifyingOrUpdating])
           | Inr (verifiedStatus, verifiedAmountKobo, verifiedRef) \<Rightarrow>
               if strict_eq verifiedStatus (Some (JStr ''success''))
                  \<and> strict_eq verifiedAmountKobo paidAmountKobo
                  \<and> strict_eq verifiedRef transactionRef
               then (if db_fault env Connect
                     then (tbl, [VerifyCall transactionRef, Log VerificationOk, Db Connect,
                                 Log ErrorVerifyingOrUpdating])
                     else if db_fault env UpdatePaid
                     then (tbl, [VerifyCall transactionRef, Log VerificationOk, Db Connect,
                                 Db UpdatePaid, Log ErrorVerifyingOrUpdating, Db Release])
                     else (fst (markPaid (NOW env) (pg_value env customerEmail)
                                  (pg_value env transactionRef) tbl),
                           [VerifyCall transactionRef, Log VerificationOk, Db Connect,
                            Db UpdatePaid, Log DatabaseAction]
                           @ (case and_then (get_prop metadata ''full_name'') (\<lambda>full_name.
                                   get_prop metadata ''cohort'') of
                                Inl err \<Rightarrow> [Log ErrorVerifyingOrUpdating]
                              | Inr c \<Rightarrow> [Log BusinessLogic])
                           @ [Db Release]))
               else (tbl, [VerifyCall transactionRef, Log VerificationFailed,
                           Log WebhookReceived, Log VerificationAmounts])))"

text \<open>
  \<^verbatim>\<open>processWebhookEvent\<close>: the third component is the exception with which the
  promise rejects, when it does.
\<close>

definition processWebhookEvent ::
  "env \<Rightarrow> json \<Rightarrow> table \<Rightarrow> table \<times> effect list \<times> js_error option" where
  "processWebhookEvent env event tbl =
     (case get_prop (Some event) ''event'' of
        Inl err \<Rightarrow> (tbl, [], Some err)
      | Inr ev \<Rightarrow>
          if strict_eq ev (Some (JStr ''charge.success''))
          then (case event_fields event of
                  Inl err \<Rightarrow> (tbl, [], Some err)
                | Inr (transactionRef, transactionStatus, customerEmail, paidAmountKobo,
                       metadata) \<Rightarrow>
                    (case verify_and_persist env transactionRef customerEmail paidAmountKobo
                            metadata tbl of
                       (tbl', t) \<Rightarrow> (tbl', [Log ProcessingCharge] @ t, None)))
          else (tbl, [Log UnhandledEventType], None))"

text \<open>
  The route \<^verbatim>\<open>/api/paystack-webhook\<close>. \<^verbatim>\<open>crypto.createHmac\<close> throws when the
  key is \<^verbatim>\<open>undefined\<close>, and the exception leaves the handler.
\<close>

definition app_paystack_webhook :: "env \<Rightarrow> webhook_request \<Rightarrow> table \<Rightarrow> table \<times> effect list" where
  "app_paystack_webhook env req tbl =
     (case PAYSTACK_SECRET_KEY env of
        None \<Rightarrow> (tbl, [Rejected])
      | Some secret \<Rightarrow>
          if Some (hmac_sha512_hex env secret (JSON_stringify (wh_body req))) \<noteq> wh_signature req
          then (tbl, [Log InvalidSignature, Respond 400])
          else (case processWebhookEvent env (wh_body req) tbl of
                  (tbl', t, None) \<Rightarrow> (tbl', [Respond 200] @ t)
                | (tbl', t, Some err) \<Rightarrow> (tbl', [Respond 200] @ t @ [Log UnhandledError])))"

section \<open>Observing a list of effects\<close>

text \<open>
  The status codes of the responses, the database operations, and the calls to the
  provider among the effects of a handler, each in order.
\<close>

definition responses :: "effect list \<Rightarrow> nat list" where
  "responses t = concat (map (\<lambda>x. case x of Respond c \<Rightarrow> [c] | other \<Rightarrow> []) t)"

definition db_ops :: "effect list \<Rightarrow> db_op list" where
  "db_ops t = concat (map (\<lambda>x. case x of Db operation \<Rightarrow> [operation] | other \<Rightarrow> []) t)"

definition verify_calls :: "effect list \<Rightarrow> jsval list" where
  "verify_calls t = concat (map (\<lambda>x. case x of VerifyCall r \<Rightarrow> [r] | other \<Rightarrow> []) t)"

definition initialize_calls :: "effect list \<Rightarrow> initialize_payload list" where
  "initialize_calls t = concat (map (\<lambda>x. case x of InitializeCall p \<Rightarrow> [p] | other \<Rightarrow> []) t)"

section \<open>Example inputs\<close>

text \<open>
  Concrete inputs at which the theorems below are instantiated. The keyed hash of the
  example environment is a stand-in (the key followed by the message): the handlers
  use the hash only by comparing its value with the header.
\<close>

definition demo_table :: table where
  "demo_table =
     [\<lparr>email = ''a@x.com'', full_name = ''A'', amount_paid = 50000, cohort = ''Cohort 3'',
       status = ''pending'', payment_ref = None, created_at = 1, updated_at = 1\<rparr>]"

definition paid_row :: registration where
  "paid_row =
     \<lparr>email = ''a@x.com'', full_name = ''A'', amount_paid = 50000, cohort = ''Cohort 3'',
      status = ''paid'', payment_ref = Some ''ref1'', created_at = 1, updated_at = 5\<rparr>"

definition paid_table :: table where
  "paid_table = [paid_row]"

definition charge_event :: "int \<Rightarrow> json" where
  "charge_event amount =
     JObj [(''event'', JStr ''charge.success''),
           (''data'', JObj [(''reference'', JStr ''ref1''),
                            (''status'', JStr ''success''),
                            (''amount'', JNum amount),
                            (''customer'', JObj [(''email'', JStr ''a@x.com'')]),
                            (''metadata'', JObj [(''full_name'', JStr ''A''),
                                                 (''cohort'', JStr ''Cohort 3'')])])]"

definition verify_answer :: "int \<Rightarrow> json" where
  "verify_answer amount =
     JObj [(''status'', JBool True),
           (''data'', JObj [(''status'', JStr ''success''),
                            (''amount'', JNum amount),
                            (''reference'', JStr ''ref1'')])]"

definition demo_pg_value :: "jsval \<Rightarrow> string option" where
  "demo_pg_value v = (case v of Some (JStr s) \<Rightarrow> Some s | other \<Rightarrow> None)"

definition demo_env :: "int \<Rightarrow> env" where
  "demo_env amount =
     \<lparr>PAYSTACK_SECRET_KEY = Some ''sk_test'',
      hmac_sha512_hex = (\<lambda>key message. key @ message),
      axios_get_verify = (\<lambda>reference key. Resolves (verify_answer amount)),
      axios_post_initialize = (\<lambda>payload key. Rejects),
      db_fault = (\<lambda>operation. False),
      pg_value = demo_pg_value,
      NOW = 9\<rparr>"

definition signed_request :: "env \<Rightarrow> string \<Rightarrow> json \<Rightarrow> webhook_request" where
  "signed_request env key event =
     \<lparr>wh_method = ''POST'',
      wh_signature = Some (hmac_sha512_hex env key (JSON_stringify event)),
      wh_body = event,
      wh_rawBody = JSON_stringify event\<rparr>"

definition unsigned_request :: "json \<Rightarrow> webhook_request" where
  "unsigned_request event =
     \<lparr>wh_method = ''POST'', wh_signature = None, wh_body = event,
      wh_rawBody = JSON_stringify event\<rparr>"

definition no_key_env :: env where
  "no_key_env = (demo_env 100)\<lparr>PAYSTACK_SECRET_KEY := None\<rparr>"

definition demo_init_request :: init_request where
  "demo_init_request =
     \<lparr>req_method = ''POST'', body_email = Some ''a@x.com'', body_amount = Some 60000,
      body_fullName = Some ''A''\<rparr>"

definition no_amount_answer :: json where
  "no_amount_answer =
     JObj [(''status'', JBool True),
           (''data'', JObj [(''status'', JStr ''success''), (''reference'', JStr ''ref1'')])]"

definition no_amount_env :: env where
  "no_amount_env =
     \<lparr>PAYSTACK_SECRET_KEY = Some ''sk_test'',
      hmac_sha512_hex = (\<lambda>key message. key @ message),
      axios_get_verify = (\<lambda>reference key. Resolves no_amount_answer),
      axios_post_initialize = (\<lambda>payload key. Rejects),
      db_fault = (\<lambda>operation. False),
      pg_value = demo_pg_value,
      NOW = 9\<rparr>"

definition raw_signed_request :: "env \<Rightarrow> string \<Rightarrow> webhook_request" where
  \<open>raw_signed_request env key =
     \<lparr>wh_method = ''POST'',
      wh_signature = Some (hmac_sha512_hex env key ''{"event": "ping"}''),
      wh_body = JObj [(''event'', JStr ''ping'')],
      wh_rawBody = ''{"event": "ping"}''\<rparr>\<close>

section \<open>Properties of the values and of the store\<close>

lemma strict_eq_str: "strict_eq x (Some (JStr s)) = (x = Some (JStr s))"
  by (cases "(x, Some (JStr s))" rule: strict_eq.cases) auto

lemma strict_eq_num: "strict_eq x (Some (JNum n)) = (x = Some (JNum n))"
  by (cases "(x, Some (JNum n))" rule: strict_eq.cases) auto

lemma strict_eq_iff: "strict_eq x y = (x = y \<and> primitive x)"
  by (cases "(x, y)" rule: strict_eq.cases) auto


lemma update_no_match:
  "filter (\<lambda>r. email r = a) tbl = [] \<Longrightarrow> map (\<lambda>r. if email r = a then f r else r) tbl = tbl"
  by (induction tbl) (auto split: if_splits)

lemma markPaid_no_row:
  "\<forall>a. e = Some a \<longrightarrow> select_by_email a tbl = [] \<Longrightarrow> markPaid now e ref tbl = (tbl, 0)"
  by (cases e) (simp_all add: markPaid_def select_by_email_def update_no_match)




section \<open>Properties of the handlers' effects\<close>

lemmas observe_defs = responses_def db_ops_def verify_calls_def initialize_calls_def

lemma verify_effects:
  "responses (snd (verifyPaystackTransaction env r a k)) = []"
  "db_ops (snd (verifyPaystackTransaction env r a k)) = []"
  "verify_calls (snd (verifyPaystackTransaction env r a k)) = [r]"
  "Rejected \<notin> set (snd (verifyPaystackTransaction env r a k))"
  by (simp_all add: verifyPaystackTransaction_def observe_defs split: axios_response.splits sum.splits prod.splits)

lemma verify_true_effects:
  "fst (verifyPaystackTransaction env r a k) \<Longrightarrow>
     snd (verifyPaystackTransaction env r a k) = [VerifyCall r, Log VerificationOk]"
  by (auto simp add: verifyPaystackTransaction_def split: axios_response.splits sum.splits prod.splits if_splits)

lemma persist_effects:
  "responses (snd (persist_paid env r e m tbl)) = []"
  "verify_calls (snd (persist_paid env r e m tbl)) = []"
  "Rejected \<notin> set (snd (persist_paid env r e m tbl))"
  by (simp_all add: persist_paid_def observe_defs split: sum.splits)

lemma observe_append:
  "responses (s @ t) = responses s @ responses t"
  "db_ops (s @ t) = db_ops s @ db_ops t"
  "verify_calls (s @ t) = verify_calls s @ verify_calls t"
  "initialize_calls (s @ t) = initialize_calls s @ initialize_calls t"
  by (simp_all add: observe_defs)

lemma observe_Cons:
  "responses (x # t) = (case x of Respond c \<Rightarrow> [c] | other \<Rightarrow> []) @ responses t"
  "db_ops (x # t) = (case x of Db operation \<Rightarrow> [operation] | other \<Rightarrow> []) @ db_ops t"
  "verify_calls (x # t) = (case x of VerifyCall r \<Rightarrow> [r] | other \<Rightarrow> []) @ verify_calls t"
  "initialize_calls (x # t) = (case x of InitializeCall p \<Rightarrow> [p] | other \<Rightarrow> []) @ initialize_calls t"
  "responses [] = []" "db_ops [] = []" "verify_calls [] = []" "initialize_calls [] = []"
  by (simp_all add: observe_defs)

lemma handle_event_effects:
  "responses (snd (handle_event env key ev tbl)) = []"
  "Rejected \<notin> set (snd (handle_event env key ev tbl))"
  by (simp_all add: handle_event_def split_beta observe_append observe_Cons verify_effects persist_effects split: sum.splits)

lemma handle_event_written:
  assumes "fst (handle_event env key ev tbl) \<noteq> tbl \<or> db_ops (snd (handle_event env key ev tbl)) \<noteq> []"
  shows "\<exists>transactionRef customerEmail paidAmountKobo metadata.
           charge_fields ev = Inr (transactionRef, customerEmail, paidAmountKobo, metadata)
           \<and> fst (verifyPaystackTransaction env transactionRef paidAmountKobo key)
           \<and> snd (handle_event env key ev tbl) =
                [Log ProcessingCharge, VerifyCall transactionRef, Log VerificationOk]
                @ snd (persist_paid env transactionRef customerEmail metadata tbl)"
  using assms
  by (auto simp add: handle_event_def split_beta observe_append observe_Cons verify_effects verify_true_effects split: sum.splits if_splits)

lemma inline_check_is_verify:
  assumes "PAYSTACK_SECRET_KEY env = Some secret"
  shows "verify_and_persist env r e a m tbl =
           (if fst (verifyPaystackTransaction env r a secret)
            then (fst (verify_and_persist env r e a m tbl),
                  [VerifyCall r, Log VerificationOk] @ drop 2 (snd (verify_and_persist env r e a m tbl)))
            else (tbl, snd (verify_and_persist env r e a m tbl)))
         \<and> (\<not> fst (verifyPaystackTransaction env r a secret) \<longrightarrow>
               db_ops (snd (verify_and_persist env r e a m tbl)) = [])"
  using assms
  by (auto simp add: verify_and_persist_def verifyPaystackTransaction_def observe_Cons split: axios_response.splits sum.splits)

lemma processWebhookEvent_written:
  assumes "PAYSTACK_SECRET_KEY env = Some secret"
    and "fst (processWebhookEvent env ev tbl) \<noteq> tbl
         \<or> db_ops (fst (snd (processWebhookEvent env ev tbl))) \<noteq> []"
  shows "\<exists>transactionRef transactionStatus customerEmail paidAmountKobo metadata rest.
           event_fields ev = Inr (transactionRef, transactionStatus, customerEmail, paidAmountKobo, metadata)
           \<and> fst (verifyPaystackTransaction env transactionRef paidAmountKobo secret)
           \<and> processWebhookEvent env ev tbl =
               (fst (verify_and_persist env transactionRef customerEmail paidAmountKobo metadata tbl),
                [Log ProcessingCharge, VerifyCall transactionRef, Log VerificationOk] @ rest, None)"
proof -
  from assms(2) obtain ev' where ev': "get_prop (Some ev) ''event'' = Inr ev'"
      "strict_eq ev' (Some (JStr ''charge.success''))"
    by (auto simp add: processWebhookEvent_def observe_Cons split: sum.splits if_splits)
  from assms(2) ev' obtain r s e a m where f: "event_fields ev = Inr (r, s, e, a, m)"
    by (auto simp add: processWebhookEvent_def observe_Cons split: sum.splits if_splits)
  have p: "processWebhookEvent env ev tbl =
             (fst (verify_and_persist env r e a m tbl),
              Log ProcessingCharge # snd (verify_and_persist env r e a m tbl), None)"
    using ev' f by (simp add: processWebhookEvent_def split_beta)
  have v: "fst (verifyPaystackTransaction env r a secret)"
  proof (rule ccontr)
    assume n: "\<not> fst (verifyPaystackTransaction env r a secret)"
    from inline_check_is_verify [OF assms(1), of r e a m tbl] n
    have "fst (verify_and_persist env r e a m tbl) = tbl"
      and "db_ops (snd (verify_and_persist env r e a m tbl)) = []"
      by (metis fst_conv, metis)
    with assms(2) p show False by (simp add: observe_Cons)
  qed
  from inline_check_is_verify [OF assms(1), of r e a m tbl] v
  have "snd (verify_and_persist env r e a m tbl) =
          [VerifyCall r, Log VerificationOk] @ drop 2 (snd (verify_and_persist env r e a m tbl))"
    by (metis snd_conv)
  with p f v show ?thesis by (metis append_Cons)
qed


lemma verify_and_persist_effects:
  "responses (snd (verify_and_persist env r e a m tbl)) = []"
  "Rejected \<notin> set (snd (verify_and_persist env r e a m tbl))"
  by (simp_all add: verify_and_persist_def observe_Cons observe_append
        split: axios_response.splits sum.splits)

lemma processWebhookEvent_effects:
  "responses (fst (snd (processWebhookEvent env ev tbl))) = []"
  "Rejected \<notin> set (fst (snd (processWebhookEvent env ev tbl)))"
  by (simp_all add: processWebhookEvent_def split_beta observe_Cons verify_and_persist_effects
        split: sum.splits)






lemma register_pending_paid:
  assumes "select_by_email e tbl = r # rs" and "status r = ''paid''"
  shows "fst (register_pending env e amount fullName tbl) = tbl"
    and "snd (snd (register_pending env e amount fullName tbl)) = Returned"
    and "initialize_calls (fst (snd (register_pending env e amount fullName tbl))) = []"
    and "\<not> db_fault env Connect \<and> \<not> db_fault env Begin \<and> \<not> db_fault env SelectRegistration
         \<and> \<not> db_fault env Rollback \<Longrightarrow>
         fst (snd (register_pending env e amount fullName tbl)) =
           [Db Connect, Db Begin, Db SelectRegistration, Db Rollback, Respond 409, Db Release]"
  using assms
  by (simp_all add: register_pending_def on_db_error_def observe_Cons observe_append)

lemma select_update_pending:
  "select_by_email e (update_pending now fullName amount e tbl) =
     map (\<lambda>r. r\<lparr>full_name := fullName, amount_paid := amount, status := ''pending'',
                 updated_at := now\<rparr>) (select_by_email e tbl)"
  by (induction tbl) (simp_all add: select_by_email_def update_pending_def)

lemma select_insert_pending:
  "select_by_email e (insert_pending now e fullName amount tbl) =
     select_by_email e tbl @
     [\<lparr>email = e, full_name = fullName, amount_paid = amount, cohort = ''Cohort 3'',
       status = ''pending'', payment_ref = None, created_at = now, updated_at = now\<rparr>]"
  by (simp add: select_by_email_def insert_pending_def)

lemma register_pending_Continue:
  assumes "register_pending env e amount fullName tbl = (tbl', t, Continue)"
  shows "responses t = []" and "initialize_calls t = []"
    and "tbl' = (if select_by_email e tbl = [] then insert_pending (NOW env) e fullName amount tbl
                 else update_pending (NOW env) fullName amount e tbl)"
    and "db_ops t = [Connect, Begin, SelectRegistration,
                     if select_by_email e tbl = [] then InsertPending else UpdatePending,
                     Commit, Release]"
  using assms
  by (auto simp add: register_pending_def on_db_error_def observe_Cons observe_append
        split: if_splits list.splits)

section \<open>The claims\<close>



text \<open>
  C8. When no row has the email, \<open>markPaid\<close> changes no row and reports that it
  changed none; it is not an error. In the handler the table after the persist step
  is the table before it, and when the database itself does not fail the handler goes
  on to the line after the update.
\<close>

theorem markPaid_unknown_email:
  assumes "select_by_email a tbl = []"
  shows "markPaid now (Some a) ref tbl = (tbl, 0)
         \<and> markPaid now None ref tbl = (tbl, 0)
         \<and> (pg_value env customerEmail = Some a \<longrightarrow>
              fst (persist_paid env transactionRef customerEmail metadata tbl) = tbl
              \<and> (\<not> db_fault env Connect \<and> \<not> db_fault env UpdatePaid \<longrightarrow>
                   take 3 (snd (persist_paid env transactionRef customerEmail metadata tbl))
                   = [Db Connect, Db UpdatePaid, Log DatabaseAction]))"
  using assms by (simp add: markPaid_no_row persist_paid_def)

theorem markPaid_unknown_email_witness:
  "select_by_email ''nobody@x.com'' demo_table = []
   \<and> markPaid 9 (Some ''nobody@x.com'') (Some ''ref1'') demo_table = (demo_table, 0)
   \<and> pg_value (demo_env 100) (Some (JStr ''nobody@x.com'')) = Some ''nobody@x.com''
   \<and> fst (persist_paid (demo_env 100) (Some (JStr ''ref1'')) (Some (JStr ''nobody@x.com''))
             None demo_table) = demo_table
   \<and> \<not> db_fault (demo_env 100) Connect \<and> \<not> db_fault (demo_env 100) UpdatePaid
   \<and> take 3 (snd (persist_paid (demo_env 100) (Some (JStr ''ref1''))
                     (Some (JStr ''nobody@x.com'')) None demo_table))
     = [Db Connect, Db UpdatePaid, Log DatabaseAction]"
proof -
  have no_row: "select_by_email ''nobody@x.com'' demo_table = []"
    by (simp add: select_by_email_def demo_table_def)
  have rendered: "pg_value (demo_env 100) (Some (JStr ''nobody@x.com'')) = Some ''nobody@x.com''"
    by (simp add: demo_env_def demo_pg_value_def)
  have sound: "\<not> db_fault (demo_env 100) Connect \<and> \<not> db_fault (demo_env 100) UpdatePaid"
    by (simp add: demo_env_def)
  from markPaid_unknown_email [OF no_row, of 9 "Some ''ref1''" "demo_env 100"
      "Some (JStr ''nobody@x.com'')" "Some (JStr ''ref1'')" None]
  show ?thesis using no_row rendered sound by simp
qed

text \<open>
  C5, as the spec states it, fails when data is missing on both sides. The comparison
  is \<^verbatim>\<open>===\<close>, and \<^verbatim>\<open>undefined === undefined\<close> holds: called with an
  undefined amount, the function returns true for an answer of the provider that
  reports a successful transaction with that reference and no amount.
\<close>

theorem verified_without_amount:
  "axios_get_verify no_amount_env (Some (JStr ''ref1'')) (Some ''sk_test'')
     = Resolves (JObj [(''status'', JBool True),
                       (''data'', JObj [(''status'', JStr ''success''),
                                        (''reference'', JStr ''ref1'')])])
   \<and> get_prop (Some (JObj [(''status'', JStr ''success''), (''reference'', JStr ''ref1'')]))
         ''amount'' = Inr None
   \<and> fst (verifyPaystackTransaction no_amount_env (Some (JStr ''ref1'')) None ''sk_test'') = True"
  by code_simp

text \<open>
  C5, amended. For every reference and every expected amount,
  \<open>verifyPaystackTransaction\<close> returns true exactly when the provider answers, the
  transaction in its answer has the status \<^verbatim>\<open>success\<close>, and what it reports as
  amount and as reference are the values the function was called with, compared by
  \<^verbatim>\<open>===\<close>: neither is an array or an object, and a field that the answer lacks
  equals an undefined argument. In every other case (the call fails, the answer has no
  transaction, a field differs) it returns false; an exception raised on the way is
  caught, so the result is always a boolean. In particular, called with a reference
  that is a string and an amount that is a number, it returns true exactly when the
  answer reports the status \<^verbatim>\<open>success\<close>, that amount and that reference, and
  false whenever one of them is missing.
\<close>

theorem verifyPaystackTransaction_true_iff:
  "fst (verifyPaystackTransaction env transactionRef paidAmountKobo key) =
     (\<exists>d verifiedData.
        axios_get_verify env transactionRef (Some key) = Resolves d
        \<and> get_prop (Some d) ''data'' = Inr verifiedData
        \<and> get_prop verifiedData ''status'' = Inr (Some (JStr ''success''))
        \<and> get_prop verifiedData ''amount'' = Inr paidAmountKobo
        \<and> get_prop verifiedData ''reference'' = Inr transactionRef
        \<and> primitive paidAmountKobo \<and> primitive transactionRef)
   \<and> fst (verifyPaystackTransaction env (Some (JStr r)) (Some (JNum n)) key) =
     (\<exists>d verifiedData.
        axios_get_verify env (Some (JStr r)) (Some key) = Resolves d
        \<and> get_prop (Some d) ''data'' = Inr verifiedData
        \<and> get_prop verifiedData ''status'' = Inr (Some (JStr ''success''))
        \<and> get_prop verifiedData ''amount'' = Inr (Some (JNum n))
        \<and> get_prop verifiedData ''reference'' = Inr (Some (JStr r)))"
proof -
  have general: "fst (verifyPaystackTransaction env x y key) =
     (\<exists>d verifiedData.
        axios_get_verify env x (Some key) = Resolves d
        \<and> get_prop (Some d) ''data'' = Inr verifiedData
        \<and> get_prop verifiedData ''status'' = Inr (Some (JStr ''success''))
        \<and> get_prop verifiedData ''amount'' = Inr y
        \<and> get_prop verifiedData ''reference'' = Inr x
        \<and> primitive y \<and> primitive x)" for x y
  proof (cases "axios_get_verify env x (Some key)")
    case Rejects
    then show ?thesis by (simp add: verifyPaystackTransaction_def)
  next
    case (Resolves d)
    show ?thesis
    proof (cases "get_prop (Some d) ''data''")
      case (Inl err)
      with Resolves show ?thesis by (simp add: verifyPaystackTransaction_def)
    next
      case (Inr verifiedData)
      show ?thesis
      proof (cases "get_prop verifiedData ''status''")
        case (Inl err)
        with Resolves Inr show ?thesis by (simp add: verifyPaystackTransaction_def)
      next
        case st: (Inr verifiedStatus)
        show ?thesis
        proof (cases "get_prop verifiedData ''amount''")
          case (Inl err)
          with Resolves Inr st show ?thesis by (simp add: verifyPaystackTransaction_def)
        next
          case am: (Inr verifiedAmountKobo)
          show ?thesis
          proof (cases "get_prop verifiedData ''reference''")
            case (Inl err)
            with Resolves Inr st am show ?thesis by (simp add: verifyPaystackTransaction_def)
          next
            case rf: (Inr verifiedRef)
            with Resolves Inr st am show ?thesis
              by (auto simp add: verifyPaystackTransaction_def strict_eq_iff)
          qed
        qed
      qed
    qed
  qed
  from general [of transactionRef paidAmountKobo] general [of "Some (JStr r)" "Some (JNum n)"]
  show ?thesis by simp
qed

text \<open>
  C1. Whenever the webhook handler changes the table or touches the database at all,
  the event is a \<^verbatim>\<open>charge.success\<close> event whose reference and amount the provider
  has verified: \<open>verifyPaystackTransaction\<close> returned true for them, and the call
  to the provider and its success come before every database operation among the
  handler's effects. So when the verification returns false nothing is written,
  whatever status the event reports. The same holds of the Express route, whose
  comparison is the one that \<open>verifyPaystackTransaction\<close> makes.
\<close>

theorem paid_only_after_verification:
  "(fst (paystack_webhook env req tbl) \<noteq> tbl
      \<or> db_ops (snd (paystack_webhook env req tbl)) \<noteq> [] \<longrightarrow>
    (\<exists>key transactionRef customerEmail paidAmountKobo metadata.
       secret_key env = Some key
       \<and> charge_fields (wh_body req) =
           Inr (transactionRef, customerEmail, paidAmountKobo, metadata)
       \<and> fst (verifyPaystackTransaction env transactionRef paidAmountKobo key)
       \<and> snd (paystack_webhook env req tbl) =
           [Respond 200, Log ProcessingCharge, VerifyCall transactionRef, Log VerificationOk]
           @ snd (persist_paid env transactionRef customerEmail metadata tbl)))
   \<and> (fst (app_paystack_webhook env req tbl) \<noteq> tbl
        \<or> db_ops (snd (app_paystack_webhook env req tbl)) \<noteq> [] \<longrightarrow>
      (\<exists>secret transactionRef transactionStatus customerEmail paidAmountKobo metadata rest.
         PAYSTACK_SECRET_KEY env = Some secret
         \<and> event_fields (wh_body req) =
             Inr (transactionRef, transactionStatus, customerEmail, paidAmountKobo, metadata)
         \<and> fst (verifyPaystackTransaction env transactionRef paidAmountKobo secret)
         \<and> snd (app_paystack_webhook env req tbl) =
             [Respond 200, Log ProcessingCharge, VerifyCall transactionRef, Log VerificationOk]
             @ rest))"
proof (intro conjI impI)
  assume w: "fst (paystack_webhook env req tbl) \<noteq> tbl
             \<or> db_ops (snd (paystack_webhook env req tbl)) \<noteq> []"
  then obtain key where key: "secret_key env = Some key" and post: "wh_method req = ''POST''"
    by (cases "secret_key env") (auto simp add: paystack_webhook_def observe_Cons split: if_splits)
  from w key post have ok: "fst (verifyPaystackWebhookSignature env req key)"
    by (auto simp add: paystack_webhook_def split_beta observe_Cons observe_append
          verifyPaystackWebhookSignature_def split: if_splits option.splits)
  then have quiet: "snd (verifyPaystackWebhookSignature env req key) = []"
    by (auto simp add: verifyPaystackWebhookSignature_def split: if_splits option.splits)
  have run: "paystack_webhook env req tbl =
               (fst (handle_event env key (wh_body req) tbl),
                Respond 200 # snd (handle_event env key (wh_body req) tbl))"
    using key post ok quiet by (simp add: paystack_webhook_def split_beta)
  with w have "fst (handle_event env key (wh_body req) tbl) \<noteq> tbl
               \<or> db_ops (snd (handle_event env key (wh_body req) tbl)) \<noteq> []"
    by (simp add: observe_Cons)
  from handle_event_written [OF this] key run
  show "\<exists>key transactionRef customerEmail paidAmountKobo metadata.
       secret_key env = Some key
       \<and> charge_fields (wh_body req) =
           Inr (transactionRef, customerEmail, paidAmountKobo, metadata)
       \<and> fst (verifyPaystackTransaction env transactionRef paidAmountKobo key)
       \<and> snd (paystack_webhook env req tbl) =
           [Respond 200, Log ProcessingCharge, VerifyCall transactionRef, Log VerificationOk]
           @ snd (persist_paid env transactionRef customerEmail metadata tbl)"
    by auto
next
  assume w: "fst (app_paystack_webhook env req tbl) \<noteq> tbl
             \<or> db_ops (snd (app_paystack_webhook env req tbl)) \<noteq> []"
  then obtain secret where secret: "PAYSTACK_SECRET_KEY env = Some secret"
    by (cases "PAYSTACK_SECRET_KEY env") (auto simp add: app_paystack_webhook_def observe_Cons)
  from w secret
  have signed: "Some (hmac_sha512_hex env secret (JSON_stringify (wh_body req))) = wh_signature req"
    by (auto simp add: app_paystack_webhook_def observe_Cons split: if_splits)
  obtain tbl' t err where p: "processWebhookEvent env (wh_body req) tbl = (tbl', t, err)"
    by (cases "processWebhookEvent env (wh_body req) tbl") auto
  have run: "fst (app_paystack_webhook env req tbl) = tbl'"
    "snd (app_paystack_webhook env req tbl) =
       Respond 200 # t @ (case err of None \<Rightarrow> [] | Some e \<Rightarrow> [Log UnhandledError])"
    using secret signed p by (auto simp add: app_paystack_webhook_def split: option.splits)
  with w have "fst (processWebhookEvent env (wh_body req) tbl) \<noteq> tbl
               \<or> db_ops (fst (snd (processWebhookEvent env (wh_body req) tbl))) \<noteq> []"
    using p by (auto simp add: observe_Cons observe_append split: option.splits)
  from processWebhookEvent_written [OF secret this] p run secret
  show "\<exists>secret transactionRef transactionStatus customerEmail paidAmountKobo metadata rest.
         PAYSTACK_SECRET_KEY env = Some secret
         \<and> event_fields (wh_body req) =
             Inr (transactionRef, transactionStatus, customerEmail, paidAmountKobo, metadata)
         \<and> fst (verifyPaystackTransaction env transactionRef paidAmountKobo secret)
         \<and> snd (app_paystack_webhook env req tbl) =
             [Respond 200, Log ProcessingCharge, VerifyCall transactionRef, Log VerificationOk]
             @ rest"
    by auto
qed


theorem paid_only_after_verification_witness:
  "fst (paystack_webhook (demo_env 100)
          (signed_request (demo_env 100) ''sk_test'' (charge_event 100)) demo_table) \<noteq> demo_table
   \<and> (\<exists>key transactionRef customerEmail paidAmountKobo metadata.
         secret_key (demo_env 100) = Some key
         \<and> charge_fields (wh_body (signed_request (demo_env 100) ''sk_test'' (charge_event 100))) =
             Inr (transactionRef, customerEmail, paidAmountKobo, metadata)
         \<and> fst (verifyPaystackTransaction (demo_env 100) transactionRef paidAmountKobo key)
         \<and> snd (paystack_webhook (demo_env 100)
                   (signed_request (demo_env 100) ''sk_test'' (charge_event 100)) demo_table) =
             [Respond 200, Log ProcessingCharge, VerifyCall transactionRef, Log VerificationOk]
             @ snd (persist_paid (demo_env 100) transactionRef customerEmail metadata demo_table))
   \<and> fst (app_paystack_webhook (demo_env 100)
            (signed_request (demo_env 100) ''sk_test'' (charge_event 100)) demo_table) \<noteq> demo_table
   \<and> (\<exists>secret transactionRef transactionStatus customerEmail paidAmountKobo metadata rest.
         PAYSTACK_SECRET_KEY (demo_env 100) = Some secret
         \<and> event_fields (wh_body (signed_request (demo_env 100) ''sk_test'' (charge_event 100))) =
             Inr (transactionRef, transactionStatus, customerEmail, paidAmountKobo, metadata)
         \<and> fst (verifyPaystackTransaction (demo_env 100) transactionRef paidAmountKobo secret)
         \<and> snd (app_paystack_webhook (demo_env 100)
                   (signed_request (demo_env 100) ''sk_test'' (charge_event 100)) demo_table) =
             [Respond 200, Log ProcessingCharge, VerifyCall transactionRef, Log VerificationOk]
             @ rest)"
proof -
  have serverless: "fst (paystack_webhook (demo_env 100)
      (signed_request (demo_env 100) ''sk_test'' (charge_event 100)) demo_table) \<noteq> demo_table"
    by code_simp
  have express: "fst (app_paystack_webhook (demo_env 100)
      (signed_request (demo_env 100) ''sk_test'' (charge_event 100)) demo_table) \<noteq> demo_table"
    by code_simp
  from paid_only_after_verification
    [of "demo_env 100" "signed_request (demo_env 100) ''sk_test'' (charge_event 100)" demo_table]
    serverless express
  show ?thesis by blast
qed

text \<open>
  C10. When the key is not configured, a POST request to either endpoint is answered
  500 at once: the initialization endpoint neither touches the database nor calls the
  provider, and the webhook endpoint does not look at the signature, so a correctly
  signed event is not acknowledged with 200 either.
\<close>

theorem missing_key_gives_500:
  assumes "PAYSTACK_SECRET_KEY env = None"
    and "req_method req = ''POST''"
    and "wh_method wreq = ''POST''"
  shows "initialize_payment env req tbl = (tbl, [Log KeyNotDefined, Respond 500])
         \<and> paystack_webhook env wreq tbl = (tbl, [Log KeyNotDefined, Respond 500])"
  using assms by (simp add: initialize_payment_def paystack_webhook_def secret_key_def)

theorem missing_key_gives_500_witness:
  "PAYSTACK_SECRET_KEY no_key_env = None
   \<and> req_method demo_init_request = ''POST''
   \<and> wh_method (signed_request no_key_env ''sk_test'' (charge_event 100)) = ''POST''
   \<and> initialize_payment no_key_env demo_init_request demo_table =
       (demo_table, [Log KeyNotDefined, Respond 500])
   \<and> paystack_webhook no_key_env (signed_request no_key_env ''sk_test'' (charge_event 100)) demo_table =
       (demo_table, [Log KeyNotDefined, Respond 500])"
proof -
  have unset: "PAYSTACK_SECRET_KEY no_key_env = None"
    by (simp add: no_key_env_def)
  have post: "req_method demo_init_request = ''POST''"
    by (simp add: demo_init_request_def)
  have wpost: "wh_method (signed_request no_key_env ''sk_test'' (charge_event 100)) = ''POST''"
    by (simp add: signed_request_def)
  from missing_key_gives_500 [OF unset post wpost, of demo_table] unset post wpost
  show ?thesis by simp
qed


text \<open>
  C6. A request that is correctly signed is not always acknowledged. The request
  whose body arrives as \<^verbatim>\<open>{"event": "ping"}\<close> and whose header is the hash of
  those bytes under the configured key is answered 200 only if the hashes of the
  bytes received and of the serialization of the parsed body coincide, and 400
  otherwise, by the serverless handler and by the Express route; with the example
  environment both answer 400 and do nothing else. The cause is the one of C3: the
  hash is taken over \<^verbatim>\<open>JSON.stringify(req.body)\<close>.
\<close>

theorem raw_signed_request_refused:
  \<open>responses (snd (paystack_webhook (env\<lparr>PAYSTACK_SECRET_KEY := Some ''sk_test''\<rparr>)
                     (raw_signed_request env ''sk_test'') tbl))
     = (if hmac_sha512_hex env ''sk_test'' ''{"event": "ping"}'' \<noteq> []
           \<and> hmac_sha512_hex env ''sk_test'' ''{"event":"ping"}''
               = hmac_sha512_hex env ''sk_test'' ''{"event": "ping"}''
        then [200] else [400])
   \<and> responses (snd (app_paystack_webhook (env\<lparr>PAYSTACK_SECRET_KEY := Some ''sk_test''\<rparr>)
                       (raw_signed_request env ''sk_test'') tbl))
     = (if hmac_sha512_hex env ''sk_test'' ''{"event":"ping"}''
             = hmac_sha512_hex env ''sk_test'' ''{"event": "ping"}''
        then [200] else [400])
   \<and> wh_signature (raw_signed_request (demo_env 100) ''sk_test'')
       = Some (hmac_sha512_hex (demo_env 100) ''sk_test''
                 (wh_rawBody (raw_signed_request (demo_env 100) ''sk_test'')))
   \<and> paystack_webhook (demo_env 100) (raw_signed_request (demo_env 100) ''sk_test'') demo_table
       = (demo_table, [Log InvalidSignature, Respond 400])
   \<and> app_paystack_webhook (demo_env 100) (raw_signed_request (demo_env 100) ''sk_test'') demo_table
       = (demo_table, [Log InvalidSignature, Respond 400])\<close>
proof -
  have compact: \<open>JSON_stringify (JObj [(''event'', JStr ''ping'')]) = ''{"event":"ping"}''\<close>
    by code_simp
  have serverless:
    \<open>responses (snd (paystack_webhook (env\<lparr>PAYSTACK_SECRET_KEY := Some ''sk_test''\<rparr>)
                     (raw_signed_request env ''sk_test'') tbl))
     = (if hmac_sha512_hex env ''sk_test'' ''{"event": "ping"}'' \<noteq> []
           \<and> hmac_sha512_hex env ''sk_test'' ''{"event":"ping"}''
               = hmac_sha512_hex env ''sk_test'' ''{"event": "ping"}''
        then [200] else [400])\<close>
    unfolding paystack_webhook_def verifyPaystackWebhookSignature_def raw_signed_request_def
      secret_key_def
    by (simp only: webhook_request.simps env.simps compact) 
       (auto simp add: observe_Cons observe_append handle_event_effects split_beta)
  have express:
    \<open>responses (snd (app_paystack_webhook (env\<lparr>PAYSTACK_SECRET_KEY := Some ''sk_test''\<rparr>)
                       (raw_signed_request env ''sk_test'') tbl))
     = (if hmac_sha512_hex env ''sk_test'' ''{"event":"ping"}''
             = hmac_sha512_hex env ''sk_test'' ''{"event": "ping"}''
        then [200] else [400])\<close>
    unfolding app_paystack_webhook_def raw_signed_request_def
    using processWebhookEvent_effects(1) [of "env\<lparr>PAYSTACK_SECRET_KEY := Some ''sk_test''\<rparr>"
        "JObj [(''event'', JStr ''ping'')]" tbl]
    by (simp only: webhook_request.simps env.simps compact)
       (auto simp add: observe_Cons observe_append split: prod.splits option.splits)
  have signed: \<open>wh_signature (raw_signed_request (demo_env 100) ''sk_test'')
       = Some (hmac_sha512_hex (demo_env 100) ''sk_test''
                 (wh_rawBody (raw_signed_request (demo_env 100) ''sk_test'')))\<close>
    by (simp add: raw_signed_request_def)
  have concrete:
    \<open>paystack_webhook (demo_env 100) (raw_signed_request (demo_env 100) ''sk_test'') demo_table
       = (demo_table, [Log InvalidSignature, Respond 400])\<close>
    \<open>app_paystack_webhook (demo_env 100) (raw_signed_request (demo_env 100) ''sk_test'') demo_table
       = (demo_table, [Log InvalidSignature, Respond 400])\<close>
    by code_simp+
  from serverless express signed concrete show ?thesis by blast
qed

text \<open>
  The order of the effects of the webhook handlers, in terms of the check that the
  handlers make. For a POST request with the key configured: when the check of the
  handler succeeds, 200 is the first effect, before the event filter, the call to the
  provider and the database operations, which are the effects of what follows; it is
  the only response, whatever the provider and the database do. When the check fails
  (no header, or a hash that differs), the only response is 400, the table is
  unchanged and there is neither a call to the provider nor a database operation. The
  Express route does the same with its own comparison.
\<close>

theorem webhook_acknowledged_first:
  assumes "wh_method req = ''POST''" and "secret_key env = Some key"
  shows "(fst (verifyPaystackWebhookSignature env req key) \<longrightarrow>
            paystack_webhook env req tbl =
              (fst (handle_event env key (wh_body req) tbl),
               Respond 200 # snd (handle_event env key (wh_body req) tbl))
            \<and> responses (snd (paystack_webhook env req tbl)) = [200]
            \<and> Rejected \<notin> set (snd (paystack_webhook env req tbl)))
         \<and> (\<not> fst (verifyPaystackWebhookSignature env req key) \<longrightarrow>
            fst (paystack_webhook env req tbl) = tbl
            \<and> responses (snd (paystack_webhook env req tbl)) = [400]
            \<and> db_ops (snd (paystack_webhook env req tbl)) = []
            \<and> verify_calls (snd (paystack_webhook env req tbl)) = []
            \<and> set (snd (paystack_webhook env req tbl))
                \<subseteq> {Log SignatureHeaderMissing, Log InvalidSignature, Respond 400})
         \<and> (Some (hmac_sha512_hex env key (JSON_stringify (wh_body req))) = wh_signature req \<longrightarrow>
            (\<exists>t. app_paystack_webhook env req tbl =
                   (fst (processWebhookEvent env (wh_body req) tbl), Respond 200 # t)
                 \<and> responses t = [] \<and> Rejected \<notin> set t))
         \<and> (Some (hmac_sha512_hex env key (JSON_stringify (wh_body req))) \<noteq> wh_signature req \<longrightarrow>
            app_paystack_webhook env req tbl = (tbl, [Log InvalidSignature, Respond 400]))"
proof -
  from assms(2) have configured: "PAYSTACK_SECRET_KEY env = Some key"
    by (simp add: secret_key_def split: option.splits if_splits)
  have accepted: "fst (verifyPaystackWebhookSignature env req key) \<Longrightarrow>
                    snd (verifyPaystackWebhookSignature env req key) = []"
    by (auto simp add: verifyPaystackWebhookSignature_def split: if_splits option.splits)
  have refused: "set (snd (verifyPaystackWebhookSignature env req key)) \<subseteq> {Log SignatureHeaderMissing}"
    by (auto simp add: verifyPaystackWebhookSignature_def split: if_splits option.splits)
  have refused_obs: "responses (snd (verifyPaystackWebhookSignature env req key)) = []"
    "db_ops (snd (verifyPaystackWebhookSignature env req key)) = []"
    "verify_calls (snd (verifyPaystackWebhookSignature env req key)) = []"
    by (auto simp add: verifyPaystackWebhookSignature_def observe_Cons split: if_splits option.splits)
  have one: "fst (verifyPaystackWebhookSignature env req key) \<longrightarrow>
            paystack_webhook env req tbl =
              (fst (handle_event env key (wh_body req) tbl),
               Respond 200 # snd (handle_event env key (wh_body req) tbl))
            \<and> responses (snd (paystack_webhook env req tbl)) = [200]
            \<and> Rejected \<notin> set (snd (paystack_webhook env req tbl))"
    using assms accepted
    by (simp add: paystack_webhook_def split_beta observe_Cons handle_event_effects)
  have two: "\<not> fst (verifyPaystackWebhookSignature env req key) \<longrightarrow>
            fst (paystack_webhook env req tbl) = tbl
            \<and> responses (snd (paystack_webhook env req tbl)) = [400]
            \<and> db_ops (snd (paystack_webhook env req tbl)) = []
            \<and> verify_calls (snd (paystack_webhook env req tbl)) = []
            \<and> set (snd (paystack_webhook env req tbl))
                \<subseteq> {Log SignatureHeaderMissing, Log InvalidSignature, Respond 400}"
    using assms refused refused_obs
    by (auto simp add: paystack_webhook_def split_beta observe_Cons observe_append)
  have three: "Some (hmac_sha512_hex env key (JSON_stringify (wh_body req))) = wh_signature req \<longrightarrow>
            (\<exists>t. app_paystack_webhook env req tbl =
                   (fst (processWebhookEvent env (wh_body req) tbl), Respond 200 # t)
                 \<and> responses t = [] \<and> Rejected \<notin> set t)"
  proof
    assume signed: "Some (hmac_sha512_hex env key (JSON_stringify (wh_body req))) = wh_signature req"
    obtain tbl' t err where p: "processWebhookEvent env (wh_body req) tbl = (tbl', t, err)"
      by (cases "processWebhookEvent env (wh_body req) tbl") auto
    from processWebhookEvent_effects [of env "wh_body req" tbl] p
    have quiet: "responses t = []" "Rejected \<notin> set t" by simp_all
    show "\<exists>t. app_paystack_webhook env req tbl =
                 (fst (processWebhookEvent env (wh_body req) tbl), Respond 200 # t)
               \<and> responses t = [] \<and> Rejected \<notin> set t"
      using configured signed p quiet
      by (cases err) (simp_all add: app_paystack_webhook_def observe_append observe_Cons)
  qed
  have four: "Some (hmac_sha512_hex env key (JSON_stringify (wh_body req))) \<noteq> wh_signature req \<longrightarrow>
            app_paystack_webhook env req tbl = (tbl, [Log InvalidSignature, Respond 400])"
    using configured by (simp add: app_paystack_webhook_def)
  from one two three four show ?thesis by blast
qed


theorem webhook_acknowledged_first_witness:
  "wh_method (signed_request (demo_env 100) ''sk_test'' (charge_event 100)) = ''POST''
   \<and> wh_method (unsigned_request (charge_event 100)) = ''POST''
   \<and> secret_key (demo_env 100) = Some ''sk_test''
   \<and> fst (verifyPaystackWebhookSignature (demo_env 100)
             (signed_request (demo_env 100) ''sk_test'' (charge_event 100)) ''sk_test'')
   \<and> responses (snd (paystack_webhook (demo_env 100)
                        (signed_request (demo_env 100) ''sk_test'' (charge_event 100)) demo_table)) = [200]
   \<and> \<not> fst (verifyPaystackWebhookSignature (demo_env 100) (unsigned_request (charge_event 100)) ''sk_test'')
   \<and> fst (paystack_webhook (demo_env 100) (unsigned_request (charge_event 100)) demo_table) = demo_table
   \<and> responses (snd (paystack_webhook (demo_env 100) (unsigned_request (charge_event 100)) demo_table)) = [400]
   \<and> Some (hmac_sha512_hex (demo_env 100) ''sk_test''
              (JSON_stringify (wh_body (signed_request (demo_env 100) ''sk_test'' (charge_event 100)))))
       = wh_signature (signed_request (demo_env 100) ''sk_test'' (charge_event 100))
   \<and> (\<exists>t. app_paystack_webhook (demo_env 100)
               (signed_request (demo_env 100) ''sk_test'' (charge_event 100)) demo_table =
               (fst (processWebhookEvent (demo_env 100)
                       (wh_body (signed_request (demo_env 100) ''sk_test'' (charge_event 100))) demo_table),
                Respond 200 # t)
            \<and> responses t = [] \<and> Rejected \<notin> set t)
   \<and> Some (hmac_sha512_hex (demo_env 100) ''sk_test''
              (JSON_stringify (wh_body (unsigned_request (charge_event 100)))))
       \<noteq> wh_signature (unsigned_request (charge_event 100))
   \<and> app_paystack_webhook (demo_env 100) (unsigned_request (charge_event 100)) demo_table =
       (demo_table, [Log InvalidSignature, Respond 400])"
proof -
  have post: "wh_method (signed_request (demo_env 100) ''sk_test'' (charge_event 100)) = ''POST''"
    "wh_method (unsigned_request (charge_event 100)) = ''POST''"
    by (simp_all add: signed_request_def unsigned_request_def)
  have key: "secret_key (demo_env 100) = Some ''sk_test''"
    by (simp add: secret_key_def demo_env_def)
  have good: "fst (verifyPaystackWebhookSignature (demo_env 100)
             (signed_request (demo_env 100) ''sk_test'' (charge_event 100)) ''sk_test'')"
    by (simp add: verifyPaystackWebhookSignature_def signed_request_def demo_env_def)
  have bad: "\<not> fst (verifyPaystackWebhookSignature (demo_env 100) (unsigned_request (charge_event 100)) ''sk_test'')"
    by (simp add: verifyPaystackWebhookSignature_def unsigned_request_def)
  have good': "Some (hmac_sha512_hex (demo_env 100) ''sk_test''
              (JSON_stringify (wh_body (signed_request (demo_env 100) ''sk_test'' (charge_event 100)))))
       = wh_signature (signed_request (demo_env 100) ''sk_test'' (charge_event 100))"
    by (simp add: signed_request_def)
  have bad': "Some (hmac_sha512_hex (demo_env 100) ''sk_test''
              (JSON_stringify (wh_body (unsigned_request (charge_event 100)))))
       \<noteq> wh_signature (unsigned_request (charge_event 100))"
    by (simp add: unsigned_request_def)
  from webhook_acknowledged_first [OF post(1) key, of demo_table]
       webhook_acknowledged_first [OF post(2) key, of demo_table]
       post key good bad good' bad'
  show ?thesis by blast
qed






text \<open>
  C4. When the first row that the email selects is paid, an initialization request for
  that email leaves the table as it is and makes no call to the provider, whatever
  else the request holds and whatever the database does. When the request passes the
  validation and the database does not fail, the transaction is rolled back without
  an update or an insert and the answer is 409, in the serverless handler (for a POST
  request with the key configured) and in the Express route.
\<close>

theorem paid_email_conflict:
  assumes "select_by_email e tbl = r # rs" and "status r = ''paid''"
    and "body_email req = Some e"
  shows "fst (initialize_payment env req tbl) = tbl
         \<and> initialize_calls (snd (initialize_payment env req tbl)) = []
         \<and> fst (app_initialize_payment env req tbl) = tbl
         \<and> initialize_calls (snd (app_initialize_payment env req tbl)) = []
         \<and> (valid_details req \<noteq> None
             \<and> \<not> db_fault env Connect \<and> \<not> db_fault env Begin
             \<and> \<not> db_fault env SelectRegistration \<and> \<not> db_fault env Rollback \<longrightarrow>
               snd (app_initialize_payment env req tbl) =
                 [Db Connect, Db Begin, Db SelectRegistration, Db Rollback, Respond 409, Db Release]
               \<and> (req_method req = ''POST'' \<and> secret_key env \<noteq> None \<longrightarrow>
                    snd (initialize_payment env req tbl) =
                      [Db Connect, Db Begin, Db SelectRegistration, Db Rollback, Respond 409,
                       Db Release]))"
proof -
  have same_email: "valid_details req = Some (e', amount, fullName) \<Longrightarrow> e' = e"
    for e' amount fullName
    using assms(3) by (auto simp add: valid_details_def split: option.splits if_splits)
  note paid = register_pending_paid [OF assms(1,2)]
  have express: "fst (app_initialize_payment env req tbl) = tbl
                 \<and> initialize_calls (snd (app_initialize_payment env req tbl)) = []"
  proof (cases "valid_details req")
    case None
    then show ?thesis by (simp add: app_initialize_payment_def observe_Cons)
  next
    case (Some v)
    obtain e' amount fullName where v: "v = (e', amount, fullName)" by (cases v) auto
    with Some same_email have d: "valid_details req = Some (e, amount, fullName)" by simp
    obtain tbl' t out where p: "register_pending env e amount fullName tbl = (tbl', t, out)"
      by (cases "register_pending env e amount fullName tbl") auto
    with paid(1-3) [of env amount fullName] have "tbl' = tbl" "out = Returned" "initialize_calls t = []"
      by simp_all
    with d p show ?thesis by (simp add: app_initialize_payment_def)
  qed
  have serverless: "fst (initialize_payment env req tbl) = tbl
                    \<and> initialize_calls (snd (initialize_payment env req tbl)) = []"
  proof (cases "valid_details req")
    case None
    then show ?thesis
      by (simp add: initialize_payment_def observe_Cons split: option.splits)
  next
    case (Some v)
    obtain e' amount fullName where v: "v = (e', amount, fullName)" by (cases v) auto
    with Some same_email have d: "valid_details req = Some (e, amount, fullName)" by simp
    obtain tbl' t out where p: "register_pending env e amount fullName tbl = (tbl', t, out)"
      by (cases "register_pending env e amount fullName tbl") auto
    with paid(1-3) [of env amount fullName] have "tbl' = tbl" "out = Returned" "initialize_calls t = []"
      by simp_all
    with d p show ?thesis
      by (simp add: initialize_payment_def observe_Cons split: option.splits)
  qed
  have conflict: "valid_details req \<noteq> None
             \<and> \<not> db_fault env Connect \<and> \<not> db_fault env Begin
             \<and> \<not> db_fault env SelectRegistration \<and> \<not> db_fault env Rollback \<longrightarrow>
               snd (app_initialize_payment env req tbl) =
                 [Db Connect, Db Begin, Db SelectRegistration, Db Rollback, Respond 409, Db Release]
               \<and> (req_method req = ''POST'' \<and> secret_key env \<noteq> None \<longrightarrow>
                    snd (initialize_payment env req tbl) =
                      [Db Connect, Db Begin, Db SelectRegistration, Db Rollback, Respond 409,
                       Db Release])"
  proof (intro impI)
    assume h: "valid_details req \<noteq> None
             \<and> \<not> db_fault env Connect \<and> \<not> db_fault env Begin
             \<and> \<not> db_fault env SelectRegistration \<and> \<not> db_fault env Rollback"
    then obtain e' amount fullName where "valid_details req = Some (e', amount, fullName)"
      by (cases "valid_details req") auto
    with same_email have d: "valid_details req = Some (e, amount, fullName)" by simp
    obtain tbl' t out where p: "register_pending env e amount fullName tbl = (tbl', t, out)"
      by (cases "register_pending env e amount fullName tbl") auto
    with paid(1,2) [of env amount fullName] paid(4) [of env amount fullName] h
    have "tbl' = tbl" "out = Returned"
      "t = [Db Connect, Db Begin, Db SelectRegistration, Db Rollback, Respond 409, Db Release]"
      by simp_all
    with d p show "snd (app_initialize_payment env req tbl) =
                 [Db Connect, Db Begin, Db SelectRegistration, Db Rollback, Respond 409, Db Release]
               \<and> (req_method req = ''POST'' \<and> secret_key env \<noteq> None \<longrightarrow>
                    snd (initialize_payment env req tbl) =
                      [Db Connect, Db Begin, Db SelectRegistration, Db Rollback, Respond 409,
                       Db Release])"
      by (auto simp add: app_initialize_payment_def initialize_payment_def)
  qed
  from express serverless conflict show ?thesis by blast
qed


theorem paid_email_conflict_witness:
  "select_by_email ''a@x.com'' paid_table = paid_row # []
   \<and> status paid_row = ''paid''
   \<and> body_email demo_init_request = Some ''a@x.com''
   \<and> fst (initialize_payment (demo_env 100) demo_init_request paid_table) = paid_table
   \<and> initialize_calls (snd (initialize_payment (demo_env 100) demo_init_request paid_table)) = []
   \<and> valid_details demo_init_request \<noteq> None
   \<and> \<not> db_fault (demo_env 100) Connect \<and> \<not> db_fault (demo_env 100) Begin
   \<and> \<not> db_fault (demo_env 100) SelectRegistration \<and> \<not> db_fault (demo_env 100) Rollback
   \<and> req_method demo_init_request = ''POST'' \<and> secret_key (demo_env 100) \<noteq> None
   \<and> snd (app_initialize_payment (demo_env 100) demo_init_request paid_table) =
       [Db Connect, Db Begin, Db SelectRegistration, Db Rollback, Respond 409, Db Release]
   \<and> snd (initialize_payment (demo_env 100) demo_init_request paid_table) =
       [Db Connect, Db Begin, Db SelectRegistration, Db Rollback, Respond 409, Db Release]"
proof -
  have row: "select_by_email ''a@x.com'' paid_table = paid_row # []"
    by (simp add: select_by_email_def paid_table_def paid_row_def)
  have paid: "status paid_row = ''paid''"
    by (simp add: paid_row_def)
  have mail: "body_email demo_init_request = Some ''a@x.com''"
    by (simp add: demo_init_request_def)
  have valid: "valid_details demo_init_request \<noteq> None"
    by (simp add: valid_details_def demo_init_request_def)
  have sound: "\<not> db_fault (demo_env 100) Connect \<and> \<not> db_fault (demo_env 100) Begin
     \<and> \<not> db_fault (demo_env 100) SelectRegistration \<and> \<not> db_fault (demo_env 100) Rollback"
    by (simp add: demo_env_def)
  have configured: "req_method demo_init_request = ''POST'' \<and> secret_key (demo_env 100) \<noteq> None"
    by (simp add: demo_init_request_def secret_key_def demo_env_def)
  from paid_email_conflict [OF row paid mail, of "demo_env 100"] row paid mail valid sound configured
  show ?thesis by blast
qed

text \<open>
  C9. When the database part of an initialization request has committed and the call
  to the provider fails, the answer is 500 and the table is the one that the
  transaction left: the email has a row, and every row of the email is pending with
  the full name and the amount of the request. The failure of the provider adds no
  database operation. The serverless handler (for a POST request with the key
  configured) and the Express route agree.
\<close>

theorem gateway_failure_leaves_pending:
  assumes "req_method req = ''POST''" and "secret_key env = Some key"
    and "valid_details req = Some (e, amount, fullName)"
    and "register_pending env e amount fullName tbl = (tbl', t, Continue)"
    and "axios_post_initialize env
           \<lparr>payload_email = e, payload_amount = amount * 100, metadata_full_name = fullName,
            metadata_email = e, metadata_cohort = ''Cohort 3'', metadata_amount_naira = amount\<rparr>
           (Some key) = Rejects"
  shows "initialize_payment env req tbl =
           (tbl', t @ [InitializeCall
                         \<lparr>payload_email = e, payload_amount = amount * 100,
                          metadata_full_name = fullName, metadata_email = e,
                          metadata_cohort = ''Cohort 3'', metadata_amount_naira = amount\<rparr>,
                       Log ErrorInitializing, Respond 500])
         \<and> app_initialize_payment env req tbl = initialize_payment env req tbl
         \<and> responses (snd (initialize_payment env req tbl)) = [500]
         \<and> db_ops t = [Connect, Begin, SelectRegistration,
                        if select_by_email e tbl = [] then InsertPending else UpdatePending,
                        Commit, Release]
         \<and> select_by_email e tbl' \<noteq> []
         \<and> (\<forall>r \<in> set (select_by_email e tbl').
               status r = ''pending'' \<and> full_name r = fullName \<and> amount_paid r = amount)"
proof -
  from assms(2) have configured: "PAYSTACK_SECRET_KEY env = Some key"
    by (simp add: secret_key_def split: option.splits if_splits)
  note written = register_pending_Continue [OF assms(4)]
  have run: "initialize_payment env req tbl =
           (tbl', t @ [InitializeCall
                         \<lparr>payload_email = e, payload_amount = amount * 100,
                          metadata_full_name = fullName, metadata_email = e,
                          metadata_cohort = ''Cohort 3'', metadata_amount_naira = amount\<rparr>,
                       Log ErrorInitializing, Respond 500])"
    using assms valid_details_def
    by (auto simp add: initialize_payment_def initialize_with_paystack_def)
  have run': "app_initialize_payment env req tbl = initialize_payment env req tbl"
    using assms configured run
    by (simp add: app_initialize_payment_def initialize_with_paystack_def)
  have one: "responses (snd (initialize_payment env req tbl)) = [500]"
    using run written(1) by (simp add: observe_append observe_Cons)
  have rows: "select_by_email e tbl' \<noteq> []
         \<and> (\<forall>r \<in> set (select_by_email e tbl').
               status r = ''pending'' \<and> full_name r = fullName \<and> amount_paid r = amount)"
    using written(3) by (auto simp add: select_update_pending select_insert_pending)
  from run run' one written(4) rows show ?thesis by blast
qed


theorem gateway_failure_leaves_pending_witness:
  "req_method demo_init_request = ''POST''
   \<and> secret_key (demo_env 100) = Some ''sk_test''
   \<and> valid_details demo_init_request = Some (''a@x.com'', 60000, ''A'')
   \<and> register_pending (demo_env 100) ''a@x.com'' 60000 ''A'' demo_table =
       ([\<lparr>email = ''a@x.com'', full_name = ''A'', amount_paid = 60000, cohort = ''Cohort 3'',
          status = ''pending'', payment_ref = None, created_at = 1, updated_at = 9\<rparr>],
        [Db Connect, Db Begin, Db SelectRegistration, Db UpdatePending, Log UpdatedExisting,
         Db Commit, Db Release],
        Continue)
   \<and> axios_post_initialize (demo_env 100)
         \<lparr>payload_email = ''a@x.com'', payload_amount = 60000 * 100, metadata_full_name = ''A'',
          metadata_email = ''a@x.com'', metadata_cohort = ''Cohort 3'',
          metadata_amount_naira = 60000\<rparr>
         (Some ''sk_test'') = Rejects
   \<and> responses (snd (initialize_payment (demo_env 100) demo_init_request demo_table)) = [500]
   \<and> app_initialize_payment (demo_env 100) demo_init_request demo_table
       = initialize_payment (demo_env 100) demo_init_request demo_table
   \<and> fst (initialize_payment (demo_env 100) demo_init_request demo_table) =
       [\<lparr>email = ''a@x.com'', full_name = ''A'', amount_paid = 60000, cohort = ''Cohort 3'',
         status = ''pending'', payment_ref = None, created_at = 1, updated_at = 9\<rparr>]"
proof -
  have post: "req_method demo_init_request = ''POST''"
    by (simp add: demo_init_request_def)
  have key: "secret_key (demo_env 100) = Some ''sk_test''"
    by (simp add: secret_key_def demo_env_def)
  have valid: "valid_details demo_init_request = Some (''a@x.com'', 60000, ''A'')"
    by (simp add: valid_details_def demo_init_request_def)
  have written: "register_pending (demo_env 100) ''a@x.com'' 60000 ''A'' demo_table =
       ([\<lparr>email = ''a@x.com'', full_name = ''A'', amount_paid = 60000, cohort = ''Cohort 3'',
          status = ''pending'', payment_ref = None, created_at = 1, updated_at = 9\<rparr>],
        [Db Connect, Db Begin, Db SelectRegistration, Db UpdatePending, Log UpdatedExisting,
         Db Commit, Db Release],
        Continue)"
    by (simp add: register_pending_def demo_env_def demo_table_def select_by_email_def
          update_pending_def)
  have down: "axios_post_initialize (demo_env 100)
         \<lparr>payload_email = ''a@x.com'', payload_amount = 60000 * 100, metadata_full_name = ''A'',
          metadata_email = ''a@x.com'', metadata_cohort = ''Cohort 3'',
          metadata_amount_naira = 60000\<rparr>
         (Some ''sk_test'') = Rejects"
    by (simp add: demo_env_def)
  from gateway_failure_leaves_pending [OF post key valid written down]
  have "initialize_payment (demo_env 100) demo_init_request demo_table =
          ([\<lparr>email = ''a@x.com'', full_name = ''A'', amount_paid = 60000, cohort = ''Cohort 3'',
             status = ''pending'', payment_ref = None, created_at = 1, updated_at = 9\<rparr>],
           [Db Connect, Db Begin, Db SelectRegistration, Db UpdatePending, Log UpdatedExisting,
            Db Commit, Db Release]
           @ [InitializeCall
                \<lparr>payload_email = ''a@x.com'', payload_amount = 60000 * 100,
                 metadata_full_name = ''A'', metadata_email = ''a@x.com'',
                 metadata_cohort = ''Cohort 3'', metadata_amount_naira = 60000\<rparr>,
              Log ErrorInitializing, Respond 500])"
    and "app_initialize_payment (demo_env 100) demo_init_request demo_table
           = initialize_payment (demo_env 100) demo_init_request demo_table"
    and "responses (snd (initialize_payment (demo_env 100) demo_init_request demo_table)) = [500]"
    by blast+
  with post key valid written down show ?thesis by simp
qed

text \<open>
  C3. The hash is computed over \<^verbatim>\<open>JSON.stringify(req.body)\<close>, not over the bytes
  that arrived. A body that arrives with a space after the colon is parsed to an
  object whose serialization has no space; with the header that signs the bytes
  received, the function returns true only if the hashes of the two different texts
  coincide, and with the example environment it returns false.
\<close>

theorem signature_over_reserialized_body:
  \<open>fst (verifyPaystackWebhookSignature env
          \<lparr>wh_method = ''POST'',
           wh_signature = Some (hmac_sha512_hex env key ''{"event": "ping"}''),
           wh_body = JObj [(''event'', JStr ''ping'')],
           wh_rawBody = ''{"event": "ping"}''\<rparr> key)
     = (hmac_sha512_hex env key ''{"event": "ping"}'' \<noteq> []
        \<and> hmac_sha512_hex env key ''{"event":"ping"}''
            = hmac_sha512_hex env key ''{"event": "ping"}'')
   \<and> JSON_stringify (JObj [(''event'', JStr ''ping'')]) = ''{"event":"ping"}''
   \<and> ''{"event":"ping"}'' \<noteq> ''{"event": "ping"}''
   \<and> fst (verifyPaystackWebhookSignature (demo_env 100)
            \<lparr>wh_method = ''POST'',
             wh_signature = Some (hmac_sha512_hex (demo_env 100) ''sk_test'' ''{"event": "ping"}''),
             wh_body = JObj [(''event'', JStr ''ping'')],
             wh_rawBody = ''{"event": "ping"}''\<rparr> ''sk_test'') = False\<close>
proof -
  have compact: \<open>JSON_stringify (JObj [(''event'', JStr ''ping'')]) = ''{"event":"ping"}''\<close>
    by code_simp
  have differ: \<open>''{"event":"ping"}'' \<noteq> ''{"event": "ping"}''\<close>
    by simp
  have general: \<open>fst (verifyPaystackWebhookSignature env
          \<lparr>wh_method = ''POST'',
           wh_signature = Some (hmac_sha512_hex env key ''{"event": "ping"}''),
           wh_body = JObj [(''event'', JStr ''ping'')],
           wh_rawBody = ''{"event": "ping"}''\<rparr> key)
     = (hmac_sha512_hex env key ''{"event": "ping"}'' \<noteq> []
        \<and> hmac_sha512_hex env key ''{"event":"ping"}''
            = hmac_sha512_hex env key ''{"event": "ping"}'')\<close>
    unfolding verifyPaystackWebhookSignature_def
    by (simp only: webhook_request.simps option.case compact fst_conv split: if_splits) auto
  have concrete: \<open>fst (verifyPaystackWebhookSignature (demo_env 100)
            \<lparr>wh_method = ''POST'',
             wh_signature = Some (hmac_sha512_hex (demo_env 100) ''sk_test'' ''{"event": "ping"}''),
             wh_body = JObj [(''event'', JStr ''ping'')],
             wh_rawBody = ''{"event": "ping"}''\<rparr> ''sk_test'') = False\<close>
    by code_simp
  from general compact differ concrete show ?thesis by blast
qed


end
